theory Spec2Isabelle
  imports Main
begin

section \<open>Strings\<close>

text \<open>
  Python strings are modelled as \<open>string\<close> (lists of 8-bit characters). \<open>str.lower\<close> is
  modelled on the ASCII letters: \<open>A\<close>..\<open>Z\<close> are mapped to \<open>a\<close>..\<open>z\<close> and every other
  character is left as it is, which is what Python does on ASCII text.
\<close>

definition lower_char :: "char \<Rightarrow> char" where
  "lower_char c =
     (case map_of (zip ''ABCDEFGHIJKLMNOPQRSTUVWXYZ'' ''abcdefghijklmnopqrstuvwxyz'') c of
        Some d \<Rightarrow> d
      | None \<Rightarrow> c)"

definition str_lower :: "string \<Rightarrow> string" where
  "str_lower s = map lower_char s"

text \<open>\<open>startswith k s\<close> is Python's \<open>s.startswith(k)\<close>.\<close>

fun startswith :: "string \<Rightarrow> string \<Rightarrow> bool" where
  "startswith [] s = True"
| "startswith (a # k) [] = False"
| "startswith (a # k) (b # s) = (a = b \<and> startswith k s)"

text \<open>\<open>es_subcadena k s\<close> is Python's \<open>k in s\<close> on strings: \<open>k\<close> occurs in \<open>s\<close> as a
  contiguous block. The empty string occurs in every string.\<close>

fun es_subcadena :: "string \<Rightarrow> string \<Rightarrow> bool" where
  "es_subcadena k [] = (k = [])"
| "es_subcadena k (c # s) = (startswith k (c # s) \<or> es_subcadena k s)"

section \<open>The organizer's configuration\<close>

text \<open>
  The fields set by \<open>OrganizadorArchivos.__init__\<close>. The two dictionaries are association
  lists in insertion order, which is the order in which Python iterates a \<open>dict\<close>;
  \<open>estructura_personalizada = None\<close> is the empty list (\<open>estructura_personalizada or {}\<close>).
  \<open>carpeta_origen\<close> is the text of the root path, \<open>str(Path(carpeta_origen))\<close>.
  \<open>tipos_archivos\<close> and \<open>estructura_default\<close> are the same for every instance and are
  constants.
\<close>

record organizador =
  carpeta_origen :: string
  materias_palabras_clave :: "(string \<times> string list) list"
  estructura_personalizada :: "(string \<times> string list) list"

definition tipos_archivos :: "(string \<times> string list) list" where
  "tipos_archivos =
     [(''pdf'', [''.pdf'']),
      (''words'', [''.doc'', ''.docx'']),
      (''powerpoint'', [''.ppt'', ''.pptx'']),
      (''imagenes'', [''.jpg'', ''.jpeg'', ''.png'', ''.gif'', ''.bmp'', ''.tiff'']),
      (''diagramas'', [''.vsd'', ''.vsdx'', ''.drawio'', ''.lnk'', ''.xml'']),
      (''comprimidos'', [''.zip'', ''.rar'', ''.7z'', ''.tar'', ''.gz'']),
      (''codigo'', [''.py'', ''.java'', ''.c'', ''.cpp'', ''.js'', ''.html'', ''.css''])]"

definition estructura_default :: "string list" where
  "estructura_default = [''pdf'', ''words'', ''powerpoint'']"

subsection \<open>\<open>obtener_carpetas_para_materia\<close>\<close>

definition obtener_carpetas_para_materia :: "organizador \<Rightarrow> string \<Rightarrow> string list" where
  "obtener_carpetas_para_materia org materia =
     (case map_of (estructura_personalizada org) materia of
        Some carpetas \<Rightarrow> carpetas
      | None \<Rightarrow> estructura_default)"

subsection \<open>Names that are single path components\<close>

text \<open>The paths \<open>self.carpeta_origen / materia / tipo\<close> are read as two names below the root.
  That is what \<open>pathlib\<close> does for names that are single components, which the
  theorems about folders built from the configuration assume.\<close>

definition componente_simple :: "string \<Rightarrow> bool" where
  "componente_simple s = (s \<noteq> [] \<and> CHR ''/'' \<notin> set s \<and> s \<noteq> ''.'' \<and> s \<noteq> ''..'')"

definition nombres_simples :: "organizador \<Rightarrow> bool" where
  "nombres_simples org =
     (\<forall>materia \<in> set (map fst (materias_palabras_clave org)).
        componente_simple materia
        \<and> (\<forall>tipo \<in> set (obtener_carpetas_para_materia org materia). componente_simple tipo))"

subsection \<open>\<open>identificar_materia\<close>\<close>

text \<open>The inner loop over one subject's keywords: true as soon as one keyword, lower-cased,
  occurs in the lower-cased file name.\<close>

fun alguna_palabra :: "string list \<Rightarrow> string \<Rightarrow> bool" where
  "alguna_palabra [] nombre_lower = False"
| "alguna_palabra (palabra # palabras) nombre_lower =
     (if es_subcadena (str_lower palabra) nombre_lower then True
      else alguna_palabra palabras nombre_lower)"

text \<open>The outer loop over the subjects, in the dictionary's order.\<close>

fun buscar_materia :: "(string \<times> string list) list \<Rightarrow> string \<Rightarrow> string option" where
  "buscar_materia [] nombre_lower = None"
| "buscar_materia ((materia, palabras_clave) # resto) nombre_lower =
     (if alguna_palabra palabras_clave nombre_lower then Some materia
      else buscar_materia resto nombre_lower)"

definition identificar_materia :: "organizador \<Rightarrow> string \<Rightarrow> string option" where
  "identificar_materia org nombre_archivo =
     (let nombre_lower = str_lower nombre_archivo
      in buscar_materia (materias_palabras_clave org) nombre_lower)"

subsection \<open>\<open>obtener_tipo_archivo\<close>\<close>

fun buscar_tipo :: "(string \<times> string list) list \<Rightarrow> string \<Rightarrow> string option" where
  "buscar_tipo [] extension = None"
| "buscar_tipo ((tipo, extensiones) # resto) extension =
     (if str_lower extension \<in> set extensiones then Some tipo
      else buscar_tipo resto extension)"

definition obtener_tipo_archivo :: "string \<Rightarrow> string option" where
  "obtener_tipo_archivo extension = buscar_tipo tipos_archivos extension"

section \<open>The file system\<close>

text \<open>
  Paths are lists of names below the root folder \<open>self.carpeta_origen\<close>; the empty list is
  the root itself. The file system is the list of the entries at and below the root, each
  a regular file with its content or a folder, in the order in which the operating system
  lists them; looking a path up is \<open>map_of\<close>. A root that does not exist has no entry
  for \<open>[]\<close>. Every name built from the configuration (a subject, a type folder) is taken
  to be a single path component: not empty, without a separator, and neither \<open>.\<close> nor
  \<open>..\<close>. Names are compared exactly, as on a case-sensitive file system.

  What the operating system refuses for reasons outside the tree (permissions, a file in
  use) is the list \<open>denegado\<close>: moving from or to a path of the list and removing or listing
  a folder of the list fail. \<open>salida\<close> is what the program has printed, one \<open>evento\<close> for
  each call of \<open>print\<close>.
\<close>

type_synonym ruta = "string list"

datatype nodo = Archivo string | Carpeta

type_synonym sistema_archivos = "(ruta \<times> nodo) list"

datatype error =
    FileNotFoundError
  | FileExistsError
  | NotADirectoryError
  | IsADirectoryError
  | PermissionError
  | ShutilError

datatype motivo = MateriaNoIdentificada | TipoNoReconocido

datatype evento =
    CreandoEstructura
  | Creada string string
  | MoviendoArchivos
  | Movido ruta string
  | ErrorMoviendo string error
  | EliminandoCarpetas
  | Eliminada ruta
  | NoSePudoEliminar string error
  | ArchivosMovidos nat
  | CarpetasEliminadas nat
  | OrganizandoArchivos
  | Organizado string string string
  | SinCarpeta string string string
  | NoOrganizado string "motivo list"
  | Separador
  | ResumenDeOrganizacion
  | ArchivosOrganizados nat
  | ArchivosSinOrganizar nat
  | ArchivosQueNoSePudieron
  | Pendiente string

record mundo =
  sistema :: sistema_archivos
  denegado :: "ruta list"
  salida :: "evento list"

text \<open>A method either returns, or raises an exception that nothing in the class catches;
  both leave the world as it was at that moment.\<close>

datatype resultado = Retorna mundo | Lanza error mundo

definition imprimir :: "evento \<Rightarrow> mundo \<Rightarrow> mundo" where
  "imprimir e w = w\<lparr>salida := salida w @ [e]\<rparr>"

definition existe :: "sistema_archivos \<Rightarrow> ruta \<Rightarrow> bool" where
  "existe fs p = (map_of fs p \<noteq> None)"

definition es_carpeta :: "sistema_archivos \<Rightarrow> ruta \<Rightarrow> bool" where
  "es_carpeta fs p = (map_of fs p = Some Carpeta)"

definition es_archivo :: "sistema_archivos \<Rightarrow> ruta \<Rightarrow> bool" where
  "es_archivo fs p = (case map_of fs p of Some (Archivo c) \<Rightarrow> True | _ \<Rightarrow> False)"

definition quitar :: "ruta \<Rightarrow> sistema_archivos \<Rightarrow> sistema_archivos" where
  "quitar p fs = filter (\<lambda>e. fst e \<noteq> p) fs"

definition poner :: "ruta \<Rightarrow> nodo \<Rightarrow> sistema_archivos \<Rightarrow> sistema_archivos" where
  "poner p n fs = quitar p fs @ [(p, n)]"

text \<open>\<open>Path.iterdir\<close>: the entries directly inside a folder. \<open>Path.rglob('*')\<close> on the root:
  every entry below the root, and nothing when the root is not a folder.\<close>

definition iterdir :: "sistema_archivos \<Rightarrow> ruta \<Rightarrow> ruta list" where
  "iterdir fs p = filter (\<lambda>q. q \<noteq> [] \<and> butlast q = p) (map fst fs)"

definition rglob :: "sistema_archivos \<Rightarrow> ruta list" where
  "rglob fs = (if es_carpeta fs [] then filter (\<lambda>q. q \<noteq> []) (map fst fs) else [])"

subsection \<open>Names\<close>

text \<open>\<open>Path.name\<close> of a path below the root, and \<open>Path.suffix\<close> and \<open>Path.stem\<close> of a name:
  with \<open>i = name.rfind('.')\<close>, the suffix is \<open>name[i:]\<close> and the stem \<open>name[:i]\<close> when
  \<open>0 < i < len(name) - 1\<close>; otherwise the suffix is empty and the stem is the name.\<close>

definition nombre :: "ruta \<Rightarrow> string" where
  "nombre p = (if p = [] then [] else last p)"

fun rfind :: "char \<Rightarrow> string \<Rightarrow> nat option" where
  "rfind c [] = None"
| "rfind c (x # xs) =
     (case rfind c xs of
        Some i \<Rightarrow> Some (Suc i)
      | None \<Rightarrow> if x = c then Some 0 else None)"

definition path_suffix :: "string \<Rightarrow> string" where
  "path_suffix name =
     (case rfind (CHR ''.'') name of
        Some i \<Rightarrow> if 0 < i \<and> i + 1 < length name then drop i name else []
      | None \<Rightarrow> [])"

definition path_stem :: "string \<Rightarrow> string" where
  "path_stem name =
     (case rfind (CHR ''.'') name of
        Some i \<Rightarrow> if 0 < i \<and> i + 1 < length name then take i name else name
      | None \<Rightarrow> name)"

text \<open>\<open>str(n)\<close> for a natural number: its decimal digits.\<close>

definition digito :: "nat \<Rightarrow> char" where
  "digito d = ''0123456789'' ! d"

function str_nat :: "nat \<Rightarrow> string" where
  "str_nat n = (if n < 10 then [digito n] else str_nat (n div 10) @ [digito (n mod 10)])"
  by pat_completeness auto
termination
  by (relation "measure id") auto

declare str_nat.simps [simp del]

text \<open>The f-string \<open>f"{base}_{contador}{ext}"\<close>.\<close>

definition nombre_numerado :: "string \<Rightarrow> nat \<Rightarrow> string \<Rightarrow> string" where
  "nombre_numerado base contador ext = base @ ''_'' @ str_nat contador @ ext"

text \<open>\<open>str(self.carpeta_origen / p)\<close>: the text of a path, with the text of the root in
  front. \<open>pathlib\<close> writes the paths below the root \<open>.\<close> without the leading \<open>./\<close>.\<close>

fun unir :: "ruta \<Rightarrow> string" where
  "unir [] = []"
| "unir [a] = a"
| "unir (a # b # r) = a @ ''/'' @ unir (b # r)"

definition str_ruta :: "string \<Rightarrow> ruta \<Rightarrow> string" where
  "str_ruta raiz p =
     (if p = [] then raiz
      else if raiz = ''.'' then unir p
      else if raiz = ''/'' then ''/'' @ unir p
      else raiz @ ''/'' @ unir p)"

subsection \<open>Operations of the operating system\<close>

text \<open>
  \<open>shutil.move(src, dst)\<close> for a source that is a regular file, which is what both callers
  pass (one tests \<open>is_file\<close>, the other skips folders). When \<open>dst\<close> is a folder the file
  goes inside it under its own name, and \<open>shutil.Error\<close> is raised if that name is taken.
  Otherwise the file is renamed to \<open>dst\<close>, replacing a file that is there. The rename
  needs the folder of the destination to exist.
\<close>

definition shutil_move :: "mundo \<Rightarrow> ruta \<Rightarrow> ruta \<Rightarrow> error + mundo" where
  "shutil_move w src dst =
     (let fs = sistema w;
          real_dst = (if es_carpeta fs dst then dst @ [nombre src] else dst)
      in if es_carpeta fs dst \<and> existe fs real_dst then Inl ShutilError
         else (case map_of fs src of
                 None \<Rightarrow> Inl FileNotFoundError
               | Some Carpeta \<Rightarrow> Inl IsADirectoryError
               | Some (Archivo c) \<Rightarrow>
                   if src \<in> set (denegado w) \<or> real_dst \<in> set (denegado w)
                   then Inl PermissionError
                   else if \<not> existe fs (butlast real_dst) then Inl FileNotFoundError
                   else if \<not> es_carpeta fs (butlast real_dst) then Inl NotADirectoryError
                   else Inr (w\<lparr>sistema := poner real_dst (Archivo c) (quitar src fs)\<rparr>)))"

text \<open>\<open>Path.mkdir(exist_ok=True)\<close>, without \<open>parents\<close>: nothing happens when the folder is
  there; a file of that name, a missing parent and a parent that is a file are errors.\<close>

definition mkdir_exist_ok :: "mundo \<Rightarrow> ruta \<Rightarrow> error + mundo" where
  "mkdir_exist_ok w p =
     (let fs = sistema w
      in if es_carpeta fs p then Inr w
         else if existe fs p then Inl FileExistsError
         else if \<not> existe fs (butlast p) then Inl FileNotFoundError
         else if \<not> es_carpeta fs (butlast p) then Inl NotADirectoryError
         else if p \<in> set (denegado w) then Inl PermissionError
         else Inr (w\<lparr>sistema := fs @ [(p, Carpeta)]\<rparr>))"

section \<open>Structure Builder: \<open>crear_estructura_carpetas\<close>\<close>

text \<open>The inner loop over the type folders of one subject, and the outer loop over the
  subjects. Neither \<open>mkdir\<close> is inside a \<open>try\<close>: an error ends the method.\<close>

fun crear_tipos :: "string \<Rightarrow> string list \<Rightarrow> mundo \<Rightarrow> resultado" where
  "crear_tipos materia [] w = Retorna w"
| "crear_tipos materia (tipo # tipos) w =
     (case mkdir_exist_ok w [materia, tipo] of
        Inl e \<Rightarrow> Lanza e w
      | Inr w' \<Rightarrow> crear_tipos materia tipos (imprimir (Creada materia tipo) w'))"

fun crear_materias :: "organizador \<Rightarrow> string list \<Rightarrow> mundo \<Rightarrow> resultado" where
  "crear_materias org [] w = Retorna w"
| "crear_materias org (materia # materias) w =
     (case mkdir_exist_ok w [materia] of
        Inl e \<Rightarrow> Lanza e w
      | Inr w' \<Rightarrow>
          (case crear_tipos materia (obtener_carpetas_para_materia org materia) w' of
             Lanza e w'' \<Rightarrow> Lanza e w''
           | Retorna w'' \<Rightarrow> crear_materias org materias w''))"

definition crear_estructura_carpetas :: "organizador \<Rightarrow> mundo \<Rightarrow> resultado" where
  "crear_estructura_carpetas org w =
     crear_materias org (map fst (materias_palabras_clave org)) (imprimir CreandoEstructura w)"

section \<open>Flattener: \<open>mover_archivos_de_subcarpetas\<close>\<close>

text \<open>\<open>any(materia in str(p) for materia in self.materias_palabras_clave.keys())\<close>: some
  subject name occurs in the text of the path.\<close>

definition en_carpeta_de_materia :: "organizador \<Rightarrow> ruta \<Rightarrow> bool" where
  "en_carpeta_de_materia org p =
     (\<exists>materia \<in> set (map fst (materias_palabras_clave org)).
        es_subcadena materia (str_ruta (carpeta_origen org) p))"

text \<open>The \<open>while destino.exists()\<close> loop, with the loop variables \<open>destino\<close> and
  \<open>contador\<close>. It ends because the numbered names are all different and the file system
  has finitely many entries, which is the termination proof that follows the definition.\<close>

function mientras_existe :: "sistema_archivos \<Rightarrow> string \<Rightarrow> string \<Rightarrow> string \<Rightarrow> nat \<Rightarrow> string" where
  "mientras_existe fs base ext destino contador =
     (if existe fs [destino]
      then mientras_existe fs base ext (nombre_numerado base contador ext) (contador + 1)
      else destino)"
  by pat_completeness auto

lemma digito_inj: "a < 10 \<Longrightarrow> b < 10 \<Longrightarrow> digito a = digito b \<Longrightarrow> a = b"
proof -
  assume "a < 10" "b < 10" "digito a = digito b"
  have A: "a \<in> {0, 1, 2, 3, 4, 5, 6, 7, 8, 9}"
    using \<open>a < 10\<close> by auto
  have B: "b \<in> {0, 1, 2, 3, 4, 5, 6, 7, 8, 9}"
    using \<open>b < 10\<close> by auto
  show ?thesis
    using A B \<open>digito a = digito b\<close> by (auto simp: digito_def)
qed

lemma str_nat_no_vacio: "str_nat n \<noteq> []"
  by (subst str_nat.simps) simp

lemma str_nat_inj: "str_nat n = str_nat m \<Longrightarrow> n = m"
proof (induction n arbitrary: m rule: less_induct)
  case (less n)
  have largo: "\<And>k. 10 \<le> k \<Longrightarrow> 2 \<le> length (str_nat k)"
  proof -
    fix k :: nat
    assume "10 \<le> k"
    then have "str_nat k = str_nat (k div 10) @ [digito (k mod 10)]"
      by (subst str_nat.simps) simp
    moreover have "1 \<le> length (str_nat (k div 10))"
      using str_nat_no_vacio [of "k div 10"] by (cases "str_nat (k div 10)") auto
    ultimately show "2 \<le> length (str_nat k)"
      by simp
  qed
  have corto: "\<And>k. k < 10 \<Longrightarrow> str_nat k = [digito k]"
    by (subst str_nat.simps) simp
  show ?case
  proof (cases "n < 10")
    case True
    show ?thesis
    proof (cases "m < 10")
      case mc: True
      then show ?thesis
        using True less.prems corto digito_inj by auto
    next
      case False
      then have "2 \<le> length (str_nat m)"
        using largo by simp
      moreover have "length (str_nat n) = 1"
        using True corto by simp
      ultimately show ?thesis
        using less.prems by simp
    qed
  next
    case False
    then have n10: "10 \<le> n" by simp
    show ?thesis
    proof (cases "m < 10")
      case True
      have "2 \<le> length (str_nat n)"
        using largo n10 by simp
      moreover have "length (str_nat m) = 1"
        using True corto by simp
      ultimately show ?thesis
        using less.prems by simp
    next
      case mf: False
      have en: "str_nat n = str_nat (n div 10) @ [digito (n mod 10)]"
        using n10 by (subst str_nat.simps) simp
      have em: "str_nat m = str_nat (m div 10) @ [digito (m mod 10)]"
        using mf by (subst str_nat.simps) simp
      from less.prems en em
      have cab: "str_nat (n div 10) = str_nat (m div 10)"
        and ult: "digito (n mod 10) = digito (m mod 10)"
        by simp_all
      have "n div 10 < n"
        using n10 by simp
      then have d: "n div 10 = m div 10"
        using less.IH cab by blast
      have "n mod 10 = m mod 10"
        using ult digito_inj [of "n mod 10" "m mod 10"] by simp
      then show ?thesis
        using d by (metis div_mult_mod_eq)
    qed
  qed
qed

lemma nombre_numerado_inj: "inj (\<lambda>m. [nombre_numerado base m ext])"
  by (rule injI) (simp add: nombre_numerado_def str_nat_inj)

lemma existe_en_claves: "existe fs p \<longleftrightarrow> p \<in> fst ` set fs"
  by (simp add: existe_def map_of_eq_None_iff)

lemma numerados_finito:
  "finite {m. contador \<le> m \<and> existe fs [nombre_numerado base m ext]}"
proof -
  have "finite ((\<lambda>m. [nombre_numerado base m ext]) -` (fst ` set fs))"
    by (rule finite_vimageI [OF _ nombre_numerado_inj]) simp
  moreover have "{m. contador \<le> m \<and> existe fs [nombre_numerado base m ext]}
      \<subseteq> (\<lambda>m. [nombre_numerado base m ext]) -` (fst ` set fs)"
    by (auto simp: existe_en_claves)
  ultimately show ?thesis
    by (rule rev_finite_subset)
qed

lemma numerados_paso:
  "card {m. Suc contador \<le> m \<and> existe fs [nombre_numerado base m ext]}
     + (if existe fs [nombre_numerado base contador ext] then 1 else 0)
   = card {m. contador \<le> m \<and> existe fs [nombre_numerado base m ext]}"
proof (cases "existe fs [nombre_numerado base contador ext]")
  case True
  have "{m. contador \<le> m \<and> existe fs [nombre_numerado base m ext]}
      = insert contador {m. Suc contador \<le> m \<and> existe fs [nombre_numerado base m ext]}"
    using True by (auto simp: Suc_le_eq le_less)
  moreover have "contador \<notin> {m. Suc contador \<le> m \<and> existe fs [nombre_numerado base m ext]}"
    by simp
  ultimately show ?thesis
    using True numerados_finito [of "Suc contador" fs base ext] by simp
next
  case False
  have "{m. contador \<le> m \<and> existe fs [nombre_numerado base m ext]}
      = {m. Suc contador \<le> m \<and> existe fs [nombre_numerado base m ext]}"
    using False by (auto simp: Suc_le_eq le_less)
  then show ?thesis
    using False by simp
qed

termination mientras_existe
proof (relation "measure (\<lambda>(fs, base, ext, destino, contador).
          card {m. contador \<le> m \<and> existe fs [nombre_numerado base m ext]}
            + (if existe fs [destino] then 1 else 0))")
  show "wf (measure (\<lambda>(fs, base, ext, destino, contador).
          card {m. contador \<le> m \<and> existe fs [nombre_numerado base m ext]}
            + (if existe fs [destino] then 1 else 0)))"
    by simp
next
  fix fs :: sistema_archivos and base ext destino :: string and contador :: nat
  assume "existe fs [destino]"
  then show "((fs, base, ext, nombre_numerado base contador ext, contador + 1),
              (fs, base, ext, destino, contador))
      \<in> measure (\<lambda>(fs, base, ext, destino, contador).
          card {m. contador \<le> m \<and> existe fs [nombre_numerado base m ext]}
            + (if existe fs [destino] then 1 else 0))"
    using numerados_paso [of contador fs base ext] by simp
qed

declare mientras_existe.simps [simp del]

text \<open>The destination of a file brought up to the root: its own name when that is free,
  and otherwise what the loop finds, starting with the counter at 1.\<close>

definition elegir_destino :: "sistema_archivos \<Rightarrow> string \<Rightarrow> string" where
  "elegir_destino fs nombre_archivo =
     (if existe fs [nombre_archivo]
      then mientras_existe fs (path_stem nombre_archivo) (path_suffix nombre_archivo)
             nombre_archivo 1
      else nombre_archivo)"

text \<open>The body of the first loop, for one entry \<open>item\<close> of \<open>rglob\<close>; the state is the world
  and \<open>archivos_movidos\<close>.\<close>

definition paso_mover :: "organizador \<Rightarrow> ruta \<Rightarrow> mundo \<times> nat \<Rightarrow> mundo \<times> nat" where
  "paso_mover org item estado =
     (case estado of (w, archivos_movidos) \<Rightarrow>
        if es_archivo (sistema w) item \<and> butlast item \<noteq> [] then
          if en_carpeta_de_materia org (butlast item) then (w, archivos_movidos)
          else
            (let destino = elegir_destino (sistema w) (nombre item)
             in case shutil_move w item [destino] of
                  Inr w' \<Rightarrow> (imprimir (Movido item destino) w', archivos_movidos + 1)
                | Inl e \<Rightarrow> (imprimir (ErrorMoviendo (nombre item) e) w, archivos_movidos))
        else (w, archivos_movidos))"

text \<open>The body of the second loop, for one entry \<open>carpeta\<close>; the state is the world and
  \<open>carpetas_eliminadas\<close>. Listing or removing a folder the system refuses raises inside
  the \<open>try\<close>.\<close>

definition paso_eliminar :: "organizador \<Rightarrow> ruta \<Rightarrow> mundo \<times> nat \<Rightarrow> mundo \<times> nat" where
  "paso_eliminar org carpeta estado =
     (case estado of (w, carpetas_eliminadas) \<Rightarrow>
        if es_carpeta (sistema w) carpeta \<and> carpeta \<noteq> [] then
          if nombre carpeta \<in> set (map fst (materias_palabras_clave org))
          then (w, carpetas_eliminadas)
          else if en_carpeta_de_materia org (butlast carpeta) then (w, carpetas_eliminadas)
          else if carpeta \<in> set (denegado w)
          then (imprimir (NoSePudoEliminar (nombre carpeta) PermissionError) w,
                carpetas_eliminadas)
          else if iterdir (sistema w) carpeta = []
          then (imprimir (Eliminada carpeta) (w\<lparr>sistema := quitar carpeta (sistema w)\<rparr>),
                carpetas_eliminadas + 1)
          else (w, carpetas_eliminadas)
        else (w, carpetas_eliminadas))"

text \<open>\<open>sorted(..., key=lambda p: len(p.parts), reverse=True)\<close>: deepest first, entries of the
  same depth in the order of the listing (the sort is stable).\<close>

definition mas_profundas_primero :: "ruta list \<Rightarrow> ruta list" where
  "mas_profundas_primero ps = sort_key (\<lambda>p. - int (length p)) ps"

definition mover_archivos_de_subcarpetas :: "organizador \<Rightarrow> mundo \<Rightarrow> mundo" where
  "mover_archivos_de_subcarpetas org w =
     (let w0 = imprimir MoviendoArchivos w;
          (w1, archivos_movidos) = fold (paso_mover org) (rglob (sistema w0)) (w0, 0);
          w2 = imprimir EliminandoCarpetas w1;
          (w3, carpetas_eliminadas) =
            fold (paso_eliminar org) (mas_profundas_primero (rglob (sistema w2))) (w2, 0)
      in imprimir (CarpetasEliminadas carpetas_eliminadas)
           (imprimir (ArchivosMovidos archivos_movidos) w3))"

section \<open>Organizer: \<open>organizar_archivos\<close>\<close>

text \<open>Python's truth value of \<open>materia\<close> and of \<open>tipo\<close>: \<open>None\<close> and the empty string are
  false.\<close>

fun verdadero :: "string option \<Rightarrow> bool" where
  "verdadero None = False"
| "verdadero (Some s) = (s \<noteq> [])"

text \<open>The names of the entries directly in the root, as \<open>self.carpeta_origen.iterdir()\<close>
  lists them.\<close>

definition nombres_en_raiz :: "sistema_archivos \<Rightarrow> string list" where
  "nombres_en_raiz fs = map nombre (iterdir fs [])"

text \<open>The body of the loop for one entry of the root; the state is the world,
  \<open>archivos_organizados\<close> and \<open>archivos_no_organizados\<close>.\<close>

definition paso_organizar ::
  "organizador \<Rightarrow> string \<Rightarrow> mundo \<times> nat \<times> string list \<Rightarrow> mundo \<times> nat \<times> string list" where
  "paso_organizar org nombre_archivo estado =
     (case estado of (w, archivos_organizados, archivos_no_organizados) \<Rightarrow>
        if es_carpeta (sistema w) [nombre_archivo]
        then (w, archivos_organizados, archivos_no_organizados)
        else
          (let extension = path_suffix nombre_archivo;
               materia = identificar_materia org nombre_archivo;
               tipo = obtener_tipo_archivo extension
           in if verdadero materia \<and> verdadero tipo then
                (let carpetas_materia = obtener_carpetas_para_materia org (the materia)
                 in if the tipo \<in> set carpetas_materia then
                      (case shutil_move w [nombre_archivo]
                              [the materia, the tipo, nombre_archivo] of
                         Inr w' \<Rightarrow>
                           (imprimir (Organizado nombre_archivo (the materia) (the tipo)) w',
                            archivos_organizados + 1, archivos_no_organizados)
                       | Inl e \<Rightarrow>
                           (imprimir (ErrorMoviendo nombre_archivo e) w,
                            archivos_organizados, archivos_no_organizados @ [nombre_archivo]))
                    else
                      (imprimir (SinCarpeta nombre_archivo (the materia) (the tipo)) w,
                       archivos_organizados, archivos_no_organizados @ [nombre_archivo]))
              else
                (imprimir
                   (NoOrganizado nombre_archivo
                      ((if \<not> verdadero materia then [MateriaNoIdentificada] else [])
                       @ (if \<not> verdadero tipo then [TipoNoReconocido] else []))) w,
                 archivos_organizados, archivos_no_organizados @ [nombre_archivo])))"

text \<open>The summary printed at the end.\<close>

definition resumen :: "nat \<Rightarrow> string list \<Rightarrow> evento list" where
  "resumen archivos_organizados archivos_no_organizados =
     [Separador, ResumenDeOrganizacion, ArchivosOrganizados archivos_organizados,
      ArchivosSinOrganizar (length archivos_no_organizados)]
     @ (if archivos_no_organizados \<noteq> []
        then ArchivosQueNoSePudieron # map Pendiente archivos_no_organizados
        else [])"

text \<open>The third part of \<open>organizar_archivos\<close>: the scan of the root. Listing a root that
  is not there, or is not a folder, raises.\<close>

definition organizar_raiz :: "organizador \<Rightarrow> mundo \<Rightarrow> resultado" where
  "organizar_raiz org w =
     (let w0 = imprimir OrganizandoArchivos w
      in if \<not> existe (sistema w0) [] then Lanza FileNotFoundError w0
         else if \<not> es_carpeta (sistema w0) [] then Lanza NotADirectoryError w0
         else
           (let (w1, archivos_organizados, archivos_no_organizados) =
                  fold (paso_organizar org) (nombres_en_raiz (sistema w0)) (w0, 0, [])
            in Retorna (w1\<lparr>salida := salida w1
                  @ resumen archivos_organizados archivos_no_organizados\<rparr>)))"


section \<open>What a call gives back\<close>








section \<open>What the specification calls a case-insensitive match\<close>


definition igual_sin_distinguir :: "string \<Rightarrow> string \<Rightarrow> bool" where
  "igual_sin_distinguir a b = (str_lower a = str_lower b)"

section \<open>Facts about strings\<close>

lemma lower_char_idem: "lower_char (lower_char c) = lower_char c"
  by (simp add: lower_char_def)

lemma str_lower_idem: "str_lower (str_lower s) = str_lower s"
  by (simp add: str_lower_def lower_char_idem)







lemma tipos_archivos_minusculas:
  "\<forall>(t, exts) \<in> set tipos_archivos. \<forall>x \<in> set exts. str_lower x = x"
  by (simp add: tipos_archivos_def str_lower_def lower_char_def)

lemma buscar_tipo_find:
  "\<forall>(t, exts) \<in> set cat. \<forall>x \<in> set exts. str_lower x = x \<Longrightarrow>
   buscar_tipo cat e =
     map_option fst (find (\<lambda>(t, exts). \<exists>x \<in> set exts. igual_sin_distinguir e x) cat)"
proof (induction cat)
  case Nil
  then show ?case by simp
next
  case (Cons a cat)
  obtain t exts where a: "a = (t, exts)"
    by (cases a)
  have low: "\<forall>x \<in> set exts. str_lower x = x"
    using Cons.prems a by auto
  have "str_lower e \<in> set exts \<longleftrightarrow> (\<exists>x \<in> set exts. igual_sin_distinguir e x)"
    using low by (auto simp: igual_sin_distinguir_def str_lower_idem)
  moreover have "buscar_tipo cat e =
      map_option fst (find (\<lambda>(t, exts). \<exists>x \<in> set exts. igual_sin_distinguir e x) cat)"
    using Cons by simp
  ultimately show ?case
    using a by simp
qed

section \<open>Subject Matcher, Type Catalog and Folder Policy\<close>



text \<open>
  C2. For every extension, \<open>obtener_tipo_archivo\<close> returns the first type of the catalog, in
  its declaration order, one of whose extensions equals the given one up to case, and
  \<open>None\<close> when there is none. The result is a function of the extension and of the
  constant catalog alone, so repeated calls give the same result.
\<close>

theorem obtener_tipo_archivo_primero:
  "obtener_tipo_archivo e =
     map_option fst
       (find (\<lambda>(t, exts). \<exists>x \<in> set exts. igual_sin_distinguir e x) tipos_archivos)"
  unfolding obtener_tipo_archivo_def
  by (rule buscar_tipo_find [OF tipos_archivos_minusculas])

theorem obtener_tipo_archivo_primero_witness:
  "map_option fst
     (find (\<lambda>(t, exts). \<exists>x \<in> set exts. igual_sin_distinguir ''.DocX'' x) tipos_archivos)
   = Some ''words''"
proof -
  have "obtener_tipo_archivo ''.DocX'' = Some ''words''"
    by (simp add: obtener_tipo_archivo_def tipos_archivos_def str_lower_def lower_char_def)
  then show ?thesis
    by (simp only: obtener_tipo_archivo_primero)
qed

text \<open>
  C9. For every subject, \<open>obtener_carpetas_para_materia\<close> returns the subject's own list when
  the custom structure has one, and the default list otherwise. The default list is
  \<open>pdf\<close>, \<open>words\<close>, \<open>powerpoint\<close>: the code's folder names for the types the specification
  calls pdf, word-documents and presentations. The function reads the configuration and
  returns a value; it has no state to change.
\<close>

theorem obtener_carpetas_para_materia_politica:
  "obtener_carpetas_para_materia org materia =
     (case map_of (estructura_personalizada org) materia of
        Some carpetas \<Rightarrow> carpetas
      | None \<Rightarrow> [''pdf'', ''words'', ''powerpoint''])"
  by (simp add: obtener_carpetas_para_materia_def estructura_default_def split: option.split)

theorem obtener_carpetas_para_materia_politica_witness:
  "obtener_carpetas_para_materia
     \<lparr>carpeta_origen = ''.'', materias_palabras_clave = [],
      estructura_personalizada = [(''Redes'', [''pdf'', ''comprimidos''])]\<rparr> ''Redes''
     = [''pdf'', ''comprimidos'']
   \<and> obtener_carpetas_para_materia
     \<lparr>carpeta_origen = ''.'', materias_palabras_clave = [],
      estructura_personalizada = [(''Redes'', [''pdf'', ''comprimidos''])]\<rparr> ''Historia''
     = [''pdf'', ''words'', ''powerpoint'']"
  using obtener_carpetas_para_materia_politica
    [of "\<lparr>carpeta_origen = ''.'', materias_palabras_clave = [],
          estructura_personalizada = [(''Redes'', [''pdf'', ''comprimidos''])]\<rparr>" "''Redes''"]
    obtener_carpetas_para_materia_politica
    [of "\<lparr>carpeta_origen = ''.'', materias_palabras_clave = [],
          estructura_personalizada = [(''Redes'', [''pdf'', ''comprimidos''])]\<rparr>" "''Historia''"]
  by simp

section \<open>Facts about paths\<close>





section \<open>The run as a whole\<close>




section \<open>Facts about the file system\<close>

lemma sistema_imprimir: "sistema (imprimir e w) = sistema w"
  by (simp add: imprimir_def)

lemma denegado_imprimir: "denegado (imprimir e w) = denegado w"
  by (simp add: imprimir_def)

lemma mkdir_existente: "es_carpeta (sistema w) p \<Longrightarrow> mkdir_exist_ok w p = Inr w"
  by (simp add: mkdir_exist_ok_def)

lemma mkdir_crea:
  assumes "mkdir_exist_ok w p = Inr w'"
  shows "es_carpeta (sistema w') p"
    and "es_carpeta (sistema w) q \<Longrightarrow> es_carpeta (sistema w') q"
  using assms
  by (auto simp: mkdir_exist_ok_def Let_def es_carpeta_def existe_def map_add_def
      split: if_splits)

lemma crear_tipos_crea:
  "crear_tipos materia tipos w = Retorna w' \<Longrightarrow>
     (\<forall>tipo \<in> set tipos. es_carpeta (sistema w') [materia, tipo])
     \<and> (\<forall>q. es_carpeta (sistema w) q \<longrightarrow> es_carpeta (sistema w') q)"
proof (induction tipos arbitrary: w)
  case Nil
  then show ?case by simp
next
  case (Cons tipo tipos)
  from Cons.prems obtain w1 where
    mk: "mkdir_exist_ok w [materia, tipo] = Inr w1"
    and resto: "crear_tipos materia tipos (imprimir (Creada materia tipo) w1) = Retorna w'"
    by (auto split: sum.splits)
  have ih: "(\<forall>t \<in> set tipos. es_carpeta (sistema w') [materia, t])
      \<and> (\<forall>q. es_carpeta (sistema w1) q \<longrightarrow> es_carpeta (sistema w') q)"
    using Cons.IH [OF resto] by (simp add: sistema_imprimir)
  show ?case
    using ih mkdir_crea [OF mk] by auto
qed

lemma crear_materias_crea:
  "crear_materias org materias w = Retorna w' \<Longrightarrow>
     (\<forall>materia \<in> set materias. es_carpeta (sistema w') [materia]
        \<and> (\<forall>tipo \<in> set (obtener_carpetas_para_materia org materia).
              es_carpeta (sistema w') [materia, tipo]))
     \<and> (\<forall>q. es_carpeta (sistema w) q \<longrightarrow> es_carpeta (sistema w') q)"
proof (induction materias arbitrary: w)
  case Nil
  then show ?case by simp
next
  case (Cons materia materias)
  from Cons.prems obtain w1 w2 where
    mk: "mkdir_exist_ok w [materia] = Inr w1"
    and tipos: "crear_tipos materia (obtener_carpetas_para_materia org materia) w1 = Retorna w2"
    and resto: "crear_materias org materias w2 = Retorna w'"
    by (auto split: sum.splits resultado.splits)
  note a = mkdir_crea [OF mk]
  note b = crear_tipos_crea [OF tipos]
  note c = Cons.IH [OF resto]
  show ?case
    using a b c by auto
qed

lemma crear_tipos_existentes:
  "\<forall>tipo \<in> set tipos. es_carpeta (sistema w) [materia, tipo] \<Longrightarrow>
   \<exists>w'. crear_tipos materia tipos w = Retorna w' \<and> sistema w' = sistema w"
proof (induction tipos arbitrary: w)
  case Nil
  then show ?case by simp
next
  case (Cons tipo tipos)
  have mk: "mkdir_exist_ok w [materia, tipo] = Inr w"
    using Cons.prems by (simp add: mkdir_existente)
  have "\<forall>t \<in> set tipos. es_carpeta (sistema (imprimir (Creada materia tipo) w)) [materia, t]"
    using Cons.prems by (simp add: sistema_imprimir)
  from Cons.IH [OF this] show ?case
    using mk by (auto simp: sistema_imprimir)
qed

lemma crear_materias_existentes:
  "\<forall>materia \<in> set materias. es_carpeta (sistema w) [materia]
        \<and> (\<forall>tipo \<in> set (obtener_carpetas_para_materia org materia).
              es_carpeta (sistema w) [materia, tipo]) \<Longrightarrow>
   \<exists>w'. crear_materias org materias w = Retorna w' \<and> sistema w' = sistema w"
proof (induction materias arbitrary: w)
  case Nil
  then show ?case by simp
next
  case (Cons materia materias)
  have mk: "mkdir_exist_ok w [materia] = Inr w"
    using Cons.prems by (simp add: mkdir_existente)
  obtain w1 where
    t: "crear_tipos materia (obtener_carpetas_para_materia org materia) w = Retorna w1"
    and s1: "sistema w1 = sistema w"
    using crear_tipos_existentes [of "obtener_carpetas_para_materia org materia" w materia]
      Cons.prems by auto
  have "\<forall>m \<in> set materias. es_carpeta (sistema w1) [m]
        \<and> (\<forall>tipo \<in> set (obtener_carpetas_para_materia org m).
              es_carpeta (sistema w1) [m, tipo])"
    using Cons.prems s1 by simp
  from Cons.IH [OF this] show ?case
    using mk t s1 by auto
qed

lemma map_of_quitar: "map_of (quitar p fs) q = (if q = p then None else map_of fs q)"
  by (induction fs) (auto simp: quitar_def)

lemma map_of_poner: "map_of (poner p n fs) q = (if q = p then Some n else map_of fs q)"
  by (auto simp: poner_def map_add_def map_of_quitar split: option.splits)

lemma buscar_materia_clave:
  "buscar_materia ms f = Some m \<Longrightarrow> m \<in> set (map fst ms)"
  by (induction ms f rule: buscar_materia.induct) (auto split: if_splits)

lemma identificar_materia_clave:
  "identificar_materia org f = Some m \<Longrightarrow> m \<in> set (map fst (materias_palabras_clave org))"
  unfolding identificar_materia_def Let_def by (rule buscar_materia_clave)

lemma obtener_tipo_no_vacio: "obtener_tipo_archivo e = Some t \<Longrightarrow> t \<noteq> []"
  by (auto simp: obtener_tipo_archivo_def tipos_archivos_def split: if_splits)

lemma materia_no_vacia:
  "nombres_simples org \<Longrightarrow> identificar_materia org f = Some m \<Longrightarrow> m \<noteq> []"
  using identificar_materia_clave [of org f m]
  by (auto simp: nombres_simples_def componente_simple_def)

text \<open>What a successful \<open>shutil.move\<close> of a file does to the file system.\<close>

lemma shutil_move_archivo:
  assumes "map_of (sistema w) src = Some (Archivo c)"
    and "\<not> es_carpeta (sistema w) dst"
    and "es_carpeta (sistema w) (butlast dst)"
    and "src \<notin> set (denegado w)" and "dst \<notin> set (denegado w)"
  shows "shutil_move w src dst
     = Inr (w\<lparr>sistema := poner dst (Archivo c) (quitar src (sistema w))\<rparr>)"
  using assms by (simp add: shutil_move_def Let_def es_carpeta_def existe_def)

lemma shutil_move_efecto:
  assumes "shutil_move w src dst = Inr w'"
  shows "\<exists>c rd. (rd = dst \<or> rd = dst @ [nombre src])
      \<and> map_of (sistema w) src = Some (Archivo c)
      \<and> w' = w\<lparr>sistema := poner rd (Archivo c) (quitar src (sistema w))\<rparr>"
  using assms
  by (auto simp: shutil_move_def Let_def split: if_splits option.splits nodo.splits)

text \<open>One step of the organizer's loop leaves every other entry of the root as it was,
  and only adds to what was printed and to the list of files not organized.\<close>

lemma paso_organizar_marco:
  assumes "paso_organizar org x (w, n, l) = (w', n', l')"
  shows "(\<forall>y. y \<noteq> x \<longrightarrow> map_of (sistema w') [y] = map_of (sistema w) [y])
      \<and> map_of (sistema w') [] = map_of (sistema w) []
      \<and> (\<exists>evs. salida w' = salida w @ evs) \<and> (\<exists>ls. l' = l @ ls)"
proof (cases "shutil_move w [x]
    [the (identificar_materia org x), the (obtener_tipo_archivo (path_suffix x)), x]")
  case (Inl e)
  then show ?thesis
    using assms
    by (auto simp: paso_organizar_def Let_def imprimir_def split: if_splits)
next
  case (Inr w1)
  from shutil_move_efecto [OF Inr] obtain c rd where
    rd: "rd = [the (identificar_materia org x), the (obtener_tipo_archivo (path_suffix x)), x]
       \<or> rd = [the (identificar_materia org x), the (obtener_tipo_archivo (path_suffix x)), x]
            @ [nombre [x]]"
    and w1: "w1 = w\<lparr>sistema := poner rd (Archivo c) (quitar [x] (sistema w))\<rparr>"
    by blast
  have largo: "\<And>y. rd \<noteq> [y]" "\<And>y. [y] \<noteq> rd" "rd \<noteq> []" "[] \<noteq> rd"
    using rd by auto
  have "\<forall>y. y \<noteq> x \<longrightarrow> map_of (sistema w1) [y] = map_of (sistema w) [y]"
    using largo by (simp add: w1 map_of_poner map_of_quitar)
  moreover have "map_of (sistema w1) [] = map_of (sistema w) []"
    using largo by (simp add: w1 map_of_poner map_of_quitar)
  moreover have "salida w1 = salida w"
    by (simp add: w1)
  ultimately show ?thesis
    using assms Inr
    by (auto simp: paso_organizar_def Let_def imprimir_def split: if_splits)
qed

lemma bucle_organizar_marco:
  assumes "fold (paso_organizar org) xs (w, n, l) = (w', n', l')"
  shows "(\<forall>y. y \<notin> set xs \<longrightarrow> map_of (sistema w') [y] = map_of (sistema w) [y])
      \<and> map_of (sistema w') [] = map_of (sistema w) []
      \<and> (\<exists>evs. salida w' = salida w @ evs) \<and> (\<exists>ls. l' = l @ ls)"
  using assms
proof (induction xs arbitrary: w n l)
  case Nil
  then show ?case by simp
next
  case (Cons x xs)
  obtain w1 n1 l1 where paso: "paso_organizar org x (w, n, l) = (w1, n1, l1)"
    by (cases "paso_organizar org x (w, n, l)") auto
  then have resto: "fold (paso_organizar org) xs (w1, n1, l1) = (w', n', l')"
    using Cons.prems by simp
  note a = paso_organizar_marco [OF paso]
  note b = Cons.IH [OF resto]
  show ?case
    using a b by (auto; metis append.assoc)
qed

text \<open>The step for a file whose subject and type are found, the type not being one of the
  subject's folders.\<close>

lemma paso_organizar_sin_carpeta:
  assumes simples: "nombres_simples org"
    and origen: "map_of (sistema w) [nombre_archivo] = Some (Archivo c)"
    and materia: "identificar_materia org nombre_archivo = Some m"
    and tipo: "obtener_tipo_archivo (path_suffix nombre_archivo) = Some t"
    and excluido: "t \<notin> set (obtener_carpetas_para_materia org m)"
  shows "paso_organizar org nombre_archivo (w, n, l)
     = (imprimir (SinCarpeta nombre_archivo m t) w, n, l @ [nombre_archivo])"
proof -
  have "m \<noteq> []"
    using materia_no_vacia [OF simples materia] .
  moreover have "t \<noteq> []"
    using obtener_tipo_no_vacio [OF tipo] .
  moreover have "\<not> es_carpeta (sistema w) [nombre_archivo]"
    using origen by (simp add: es_carpeta_def)
  ultimately show ?thesis
    using materia tipo excluido by (simp add: paso_organizar_def Let_def)
qed

lemma bucle_organizar_sin_carpeta:
  assumes simples: "nombres_simples org"
    and materia: "identificar_materia org nombre_archivo = Some m"
    and tipo: "obtener_tipo_archivo (path_suffix nombre_archivo) = Some t"
    and excluido: "t \<notin> set (obtener_carpetas_para_materia org m)"
  shows "nombre_archivo \<in> set xs \<Longrightarrow>
     map_of (sistema w) [nombre_archivo] = Some (Archivo c) \<Longrightarrow>
     fold (paso_organizar org) xs (w, n, l) = (w', n', l') \<Longrightarrow>
     map_of (sistema w') [nombre_archivo] = Some (Archivo c)
       \<and> SinCarpeta nombre_archivo m t \<in> set (salida w') \<and> nombre_archivo \<in> set l'"
proof (induction xs arbitrary: w n l)
  case Nil
  then show ?case by simp
next
  case (Cons x xs)
  obtain w1 n1 l1 where paso: "paso_organizar org x (w, n, l) = (w1, n1, l1)"
    by (cases "paso_organizar org x (w, n, l)") auto
  then have resto: "fold (paso_organizar org) xs (w1, n1, l1) = (w', n', l')"
    using Cons.prems by simp
  have sigue: "map_of (sistema w1) [nombre_archivo] = Some (Archivo c)"
  proof (cases "x = nombre_archivo")
    case True
    then show ?thesis
      using paso paso_organizar_sin_carpeta [OF simples Cons.prems(2) materia tipo excluido]
        Cons.prems(2)
      by (auto simp: imprimir_def)
  next
    case False
    then show ?thesis
      using paso_organizar_marco [OF paso] Cons.prems(2) by auto
  qed
  show ?case
  proof (cases "nombre_archivo \<in> set xs")
    case True
    from Cons.IH [OF True sigue resto] show ?thesis .
  next
    case False
    then have x: "x = nombre_archivo"
      using Cons.prems(1) by simp
    have hecho: "SinCarpeta nombre_archivo m t \<in> set (salida w1)" "nombre_archivo \<in> set l1"
      using paso paso_organizar_sin_carpeta [OF simples Cons.prems(2) materia tipo excluido] x
      by (auto simp: imprimir_def)
    have "map_of (sistema w') [nombre_archivo] = Some (Archivo c)"
      using bucle_organizar_marco [OF resto] False sigue by auto
    then show ?thesis
      using bucle_organizar_marco [OF resto] hecho by auto
  qed
qed

lemma en_nombres_en_raiz:
  "map_of fs [x] = Some v \<Longrightarrow> x \<in> set (nombres_en_raiz fs)"
proof -
  assume "map_of fs [x] = Some v"
  then have "[x] \<in> set (map fst fs)"
    by (metis map_of_SomeD list.set_map image_eqI fst_conv)
  then have "[x] \<in> set (iterdir fs [])"
    by (simp add: iterdir_def)
  then have "nombre [x] \<in> set (nombres_en_raiz fs)"
    unfolding nombres_en_raiz_def by (metis image_eqI list.set_map)
  then show ?thesis
    by (simp add: nombre_def)
qed

section \<open>Structure Builder\<close>

text \<open>
  C8. Idempotence of \<open>crear_estructura_carpetas\<close>: when a run of the builder has returned,
  a second run with the same configuration returns too (no error) and leaves the file
  system exactly as the first run left it: every folder of every subject and of every
  allowed type is found in place and none is added.
\<close>

theorem crear_estructura_idempotente:
  assumes "nombres_simples org"
    and "crear_estructura_carpetas org w = Retorna w1"
  shows "\<exists>w2. crear_estructura_carpetas org w1 = Retorna w2 \<and> sistema w2 = sistema w1"
proof -
  let ?ms = "map fst (materias_palabras_clave org)"
  have "crear_materias org ?ms (imprimir CreandoEstructura w) = Retorna w1"
    using assms(2) by (simp add: crear_estructura_carpetas_def)
  from crear_materias_crea [OF this]
  have "\<forall>materia \<in> set ?ms. es_carpeta (sistema (imprimir CreandoEstructura w1)) [materia]
        \<and> (\<forall>tipo \<in> set (obtener_carpetas_para_materia org materia).
              es_carpeta (sistema (imprimir CreandoEstructura w1)) [materia, tipo])"
    by (simp add: sistema_imprimir)
  from crear_materias_existentes [OF this] show ?thesis
    by (simp add: crear_estructura_carpetas_def sistema_imprimir)
qed

theorem crear_estructura_idempotente_witness:
  "nombres_simples
     \<lparr>carpeta_origen = ''.'', materias_palabras_clave = [(''Redes'', [''red''])],
        estructura_personalizada = [(''Redes'', [''pdf'', ''comprimidos''])]\<rparr>
   \<and> crear_estructura_carpetas
     \<lparr>carpeta_origen = ''.'', materias_palabras_clave = [(''Redes'', [''red''])],
        estructura_personalizada = [(''Redes'', [''pdf'', ''comprimidos''])]\<rparr>
     \<lparr>sistema = [([], Carpeta)], denegado = [], salida = []\<rparr>
     = Retorna
         \<lparr>sistema = [([], Carpeta), ([''Redes''], Carpeta), ([''Redes'', ''pdf''], Carpeta),
                     ([''Redes'', ''comprimidos''], Carpeta)],
          denegado = [],
          salida = [CreandoEstructura, Creada ''Redes'' ''pdf'',
                    Creada ''Redes'' ''comprimidos'']\<rparr>
   \<and> (\<exists>w2. crear_estructura_carpetas
     \<lparr>carpeta_origen = ''.'', materias_palabras_clave = [(''Redes'', [''red''])],
        estructura_personalizada = [(''Redes'', [''pdf'', ''comprimidos''])]\<rparr>
     \<lparr>sistema = [([], Carpeta), ([''Redes''], Carpeta), ([''Redes'', ''pdf''], Carpeta),
                 ([''Redes'', ''comprimidos''], Carpeta)],
      denegado = [],
      salida = [CreandoEstructura, Creada ''Redes'' ''pdf'',
                Creada ''Redes'' ''comprimidos'']\<rparr> = Retorna w2
       \<and> sistema w2 =
           [([], Carpeta), ([''Redes''], Carpeta), ([''Redes'', ''pdf''], Carpeta),
            ([''Redes'', ''comprimidos''], Carpeta)])"
proof -
  let ?org = "\<lparr>carpeta_origen = ''.'', materias_palabras_clave = [(''Redes'', [''red''])],
        estructura_personalizada = [(''Redes'', [''pdf'', ''comprimidos''])]\<rparr>"
  have h1: "nombres_simples ?org"
    by (simp add: nombres_simples_def componente_simple_def obtener_carpetas_para_materia_def)
  have h2: "crear_estructura_carpetas ?org
     \<lparr>sistema = [([], Carpeta)], denegado = [], salida = []\<rparr>
     = Retorna
         \<lparr>sistema = [([], Carpeta), ([''Redes''], Carpeta), ([''Redes'', ''pdf''], Carpeta),
                     ([''Redes'', ''comprimidos''], Carpeta)],
          denegado = [],
          salida = [CreandoEstructura, Creada ''Redes'' ''pdf'',
                    Creada ''Redes'' ''comprimidos'']\<rparr>"
    by (simp add: crear_estructura_carpetas_def imprimir_def mkdir_exist_ok_def es_carpeta_def
        existe_def obtener_carpetas_para_materia_def)
  show ?thesis
    using h1 h2 crear_estructura_idempotente [OF h1 h2] by simp
qed

section \<open>Organizer\<close>

text \<open>
  C5. Policy exclusion. For a file \<open>nombre_archivo\<close> of the root whose subject \<open>m\<close> and type
  \<open>t\<close> are both found, \<open>t\<close> not being one of the folders of \<open>m\<close>: the step of the loop
  prints that \<open>m\<close> has no folder \<open>t\<close> (the specification's reason "type not permitted for
  subject"), adds the name to \<open>archivos_no_organizados\<close> and leaves the file system as it
  is; and at the end of the scan of the root the file is still in the root with its
  content, the message has been printed and the name is in the list of files not
  organized that the summary prints. The names of the configuration are single path
  components; an empty subject name would be false for Python's \<open>if materia and tipo\<close>.
\<close>

theorem tipo_no_permitido:
  assumes simples: "nombres_simples org"
    and raiz: "es_carpeta (sistema w) []"
    and origen: "map_of (sistema w) [nombre_archivo] = Some (Archivo c)"
    and materia: "identificar_materia org nombre_archivo = Some m"
    and tipo: "obtener_tipo_archivo (path_suffix nombre_archivo) = Some t"
    and excluido: "t \<notin> set (obtener_carpetas_para_materia org m)"
  shows "paso_organizar org nombre_archivo (w, n, l)
       = (imprimir (SinCarpeta nombre_archivo m t) w, n, l @ [nombre_archivo])
     \<and> (\<exists>w'. organizar_raiz org w = Retorna w'
          \<and> map_of (sistema w') [nombre_archivo] = Some (Archivo c)
          \<and> SinCarpeta nombre_archivo m t \<in> set (salida w')
          \<and> Pendiente nombre_archivo \<in> set (salida w'))"
proof -
  let ?w0 = "imprimir OrganizandoArchivos w"
  obtain w1 n1 l1 where
    bucle: "fold (paso_organizar org) (nombres_en_raiz (sistema ?w0)) (?w0, 0, []) = (w1, n1, l1)"
    by (cases "fold (paso_organizar org) (nombres_en_raiz (sistema ?w0)) (?w0, 0, [])") auto
  have origen0: "map_of (sistema ?w0) [nombre_archivo] = Some (Archivo c)"
    using origen by (simp add: imprimir_def)
  have visitado: "nombre_archivo \<in> set (nombres_en_raiz (sistema ?w0))"
    using en_nombres_en_raiz [OF origen0] .
  note fin = bucle_organizar_sin_carpeta [OF simples materia tipo excluido visitado origen0 bucle]
  have "organizar_raiz org w = Retorna (w1\<lparr>salida := salida w1 @ resumen n1 l1\<rparr>)"
    using raiz bucle by (simp add: organizar_raiz_def Let_def imprimir_def es_carpeta_def existe_def)
  moreover have "Pendiente nombre_archivo \<in> set (resumen n1 l1)"
    using fin by (auto simp: resumen_def)
  ultimately have "\<exists>w'. organizar_raiz org w = Retorna w'
          \<and> map_of (sistema w') [nombre_archivo] = Some (Archivo c)
          \<and> SinCarpeta nombre_archivo m t \<in> set (salida w')
          \<and> Pendiente nombre_archivo \<in> set (salida w')"
    using fin by simp
  then show ?thesis
    using paso_organizar_sin_carpeta [OF simples origen materia tipo excluido] by simp
qed

theorem tipo_no_permitido_witness:
  "let org = \<lparr>carpeta_origen = ''.'', materias_palabras_clave = [(''Redes'', [''red''])],
        estructura_personalizada = []\<rparr>;
       w = \<lparr>sistema = [([], Carpeta), ([''red.zip''], Archivo ''datos'')],
      denegado = [], salida = []\<rparr>
   in nombres_simples org
      \<and> es_carpeta (sistema w) []
      \<and> map_of (sistema w) [''red.zip''] = Some (Archivo ''datos'')
      \<and> identificar_materia org ''red.zip'' = Some ''Redes''
      \<and> obtener_tipo_archivo (path_suffix ''red.zip'') = Some ''comprimidos''
      \<and> ''comprimidos'' \<notin> set (obtener_carpetas_para_materia org ''Redes'')
      \<and> paso_organizar org ''red.zip'' (w, 0, [])
         = (imprimir (SinCarpeta ''red.zip'' ''Redes'' ''comprimidos'') w, 0, [] @ [''red.zip''])
      \<and> (\<exists>w'. organizar_raiz org w = Retorna w'
          \<and> map_of (sistema w') [''red.zip''] = Some (Archivo ''datos'')
          \<and> SinCarpeta ''red.zip'' ''Redes'' ''comprimidos'' \<in> set (salida w')
          \<and> Pendiente ''red.zip'' \<in> set (salida w'))"
proof -
  let ?org = "\<lparr>carpeta_origen = ''.'', materias_palabras_clave = [(''Redes'', [''red''])],
        estructura_personalizada = []\<rparr>"
  let ?w = "\<lparr>sistema = [([], Carpeta), ([''red.zip''], Archivo ''datos'')],
      denegado = [], salida = []\<rparr>"
  have h1: "nombres_simples ?org"
    by (simp add: nombres_simples_def componente_simple_def obtener_carpetas_para_materia_def
        estructura_default_def)
  have h2: "es_carpeta (sistema ?w) []"
    by (simp add: es_carpeta_def)
  have h3: "map_of (sistema ?w) [''red.zip''] = Some (Archivo ''datos'')"
    by simp
  have h4: "identificar_materia ?org ''red.zip'' = Some ''Redes''"
    by (simp add: identificar_materia_def str_lower_def lower_char_def)
  have h5: "obtener_tipo_archivo (path_suffix ''red.zip'') = Some ''comprimidos''"
    by (simp add: obtener_tipo_archivo_def tipos_archivos_def path_suffix_def str_lower_def
        lower_char_def)
  have h6: "''comprimidos'' \<notin> set (obtener_carpetas_para_materia ?org ''Redes'')"
    by (simp add: obtener_carpetas_para_materia_def estructura_default_def)
  note fin = tipo_no_permitido [where n = 0 and l = "[]", OF h1 h2 h3 h4 h5 h6]
  show ?thesis
    unfolding Let_def using h1 h2 h3 h4 h5 h6 fin by (intro conjI) simp_all
qed

text \<open>
  C10. The organizer does not rename on a collision. When the file \<open>nombre_archivo\<close> of the
  root has subject \<open>m\<close> and an allowed type \<open>t\<close>, and a file of the same name is already in
  \<open>m/t\<close>, the step moves the file onto it: afterwards \<open>m/t/nombre_archivo\<close> holds the content
  that was in the root, the content that was there is gone, the file is counted as
  organized, and no other path has changed, so no numbered name was made as the flattener
  would have done. The system refuses neither path.
\<close>

theorem organizar_sobrescribe:
  assumes simples: "nombres_simples org"
    and origen: "map_of (sistema w) [nombre_archivo] = Some (Archivo c)"
    and materia: "identificar_materia org nombre_archivo = Some m"
    and tipo: "obtener_tipo_archivo (path_suffix nombre_archivo) = Some t"
    and permitido: "t \<in> set (obtener_carpetas_para_materia org m)"
    and carpeta: "es_carpeta (sistema w) [m, t]"
    and ocupado: "map_of (sistema w) [m, t, nombre_archivo] = Some (Archivo c0)"
    and libre: "[nombre_archivo] \<notin> set (denegado w)"
      "[m, t, nombre_archivo] \<notin> set (denegado w)"
  shows "\<exists>w'. paso_organizar org nombre_archivo (w, n, pendientes) = (w', n + 1, pendientes)
      \<and> map_of (sistema w') [m, t, nombre_archivo] = Some (Archivo c)
      \<and> map_of (sistema w') [nombre_archivo] = None
      \<and> (\<forall>q. q \<noteq> [nombre_archivo] \<and> q \<noteq> [m, t, nombre_archivo]
            \<longrightarrow> map_of (sistema w') q = map_of (sistema w) q)
      \<and> salida w' = salida w @ [Organizado nombre_archivo m t]"
proof -
  have m: "m \<noteq> []"
    using materia_no_vacia [OF simples materia] .
  have t: "t \<noteq> []"
    using obtener_tipo_no_vacio [OF tipo] .
  have nodir: "\<not> es_carpeta (sistema w) [nombre_archivo]"
    using origen by (simp add: es_carpeta_def)
  have nodir2: "\<not> es_carpeta (sistema w) [m, t, nombre_archivo]"
    using ocupado by (simp add: es_carpeta_def)
  have mv: "shutil_move w [nombre_archivo] [m, t, nombre_archivo]
      = Inr (w\<lparr>sistema := poner [m, t, nombre_archivo] (Archivo c)
                  (quitar [nombre_archivo] (sistema w))\<rparr>)"
    using shutil_move_archivo [OF origen nodir2 _ libre] carpeta by simp
  let ?w = "imprimir (Organizado nombre_archivo m t)
      (w\<lparr>sistema := poner [m, t, nombre_archivo] (Archivo c)
            (quitar [nombre_archivo] (sistema w))\<rparr>)"
  have paso: "paso_organizar org nombre_archivo (w, n, pendientes) = (?w, n + 1, pendientes)"
    using nodir materia tipo m t permitido mv
    by (simp add: paso_organizar_def Let_def)
  have "map_of (sistema ?w) [m, t, nombre_archivo] = Some (Archivo c)"
    by (simp add: imprimir_def map_of_poner)
  moreover have "map_of (sistema ?w) [nombre_archivo] = None"
    by (simp add: imprimir_def map_of_poner map_of_quitar)
  moreover have "\<forall>q. q \<noteq> [nombre_archivo] \<and> q \<noteq> [m, t, nombre_archivo]
            \<longrightarrow> map_of (sistema ?w) q = map_of (sistema w) q"
    by (simp add: imprimir_def map_of_poner map_of_quitar)
  moreover have "salida ?w = salida w @ [Organizado nombre_archivo m t]"
    by (simp add: imprimir_def)
  ultimately show ?thesis
    using paso by blast
qed

theorem organizar_sobrescribe_witness:
  "let org = \<lparr>carpeta_origen = ''.'', materias_palabras_clave = [(''Redes'', [''red''])],
        estructura_personalizada = [(''Redes'', [''pdf'', ''comprimidos''])]\<rparr>;
       w = \<lparr>sistema = [([], Carpeta), ([''Redes''], Carpeta), ([''Redes'', ''pdf''], Carpeta),
                 ([''Redes'', ''pdf'', ''red.pdf''], Archivo ''viejo''),
                 ([''red.pdf''], Archivo ''nuevo'')],
      denegado = [], salida = []\<rparr>
   in nombres_simples org
      \<and> map_of (sistema w) [''red.pdf''] = Some (Archivo ''nuevo'')
      \<and> identificar_materia org ''red.pdf'' = Some ''Redes''
      \<and> obtener_tipo_archivo (path_suffix ''red.pdf'') = Some ''pdf''
      \<and> ''pdf'' \<in> set (obtener_carpetas_para_materia org ''Redes'')
      \<and> es_carpeta (sistema w) [''Redes'', ''pdf'']
      \<and> map_of (sistema w) [''Redes'', ''pdf'', ''red.pdf''] = Some (Archivo ''viejo'')
      \<and> [''red.pdf''] \<notin> set (denegado w)
      \<and> [''Redes'', ''pdf'', ''red.pdf''] \<notin> set (denegado w)
      \<and> (\<exists>w'. paso_organizar org ''red.pdf'' (w, 0, []) = (w', 0 + 1, [])
          \<and> map_of (sistema w') [''Redes'', ''pdf'', ''red.pdf''] = Some (Archivo ''nuevo'')
          \<and> map_of (sistema w') [''red.pdf''] = None
          \<and> (\<forall>q. q \<noteq> [''red.pdf''] \<and> q \<noteq> [''Redes'', ''pdf'', ''red.pdf'']
                \<longrightarrow> map_of (sistema w') q = map_of (sistema w) q)
          \<and> salida w' = salida w @ [Organizado ''red.pdf'' ''Redes'' ''pdf''])"
proof -
  let ?org = "\<lparr>carpeta_origen = ''.'', materias_palabras_clave = [(''Redes'', [''red''])],
        estructura_personalizada = [(''Redes'', [''pdf'', ''comprimidos''])]\<rparr>"
  let ?w = "\<lparr>sistema = [([], Carpeta), ([''Redes''], Carpeta), ([''Redes'', ''pdf''], Carpeta),
                 ([''Redes'', ''pdf'', ''red.pdf''], Archivo ''viejo''),
                 ([''red.pdf''], Archivo ''nuevo'')],
      denegado = [], salida = []\<rparr>"
  have h1: "nombres_simples ?org"
    by (simp add: nombres_simples_def componente_simple_def obtener_carpetas_para_materia_def)
  have h2: "map_of (sistema ?w) [''red.pdf''] = Some (Archivo ''nuevo'')"
    by simp
  have h3: "identificar_materia ?org ''red.pdf'' = Some ''Redes''"
    by (simp add: identificar_materia_def str_lower_def lower_char_def)
  have h4: "obtener_tipo_archivo (path_suffix ''red.pdf'') = Some ''pdf''"
    by (simp add: obtener_tipo_archivo_def tipos_archivos_def path_suffix_def str_lower_def
        lower_char_def)
  have h5: "''pdf'' \<in> set (obtener_carpetas_para_materia ?org ''Redes'')"
    by (simp add: obtener_carpetas_para_materia_def)
  have h6: "es_carpeta (sistema ?w) [''Redes'', ''pdf'']"
    by (simp add: es_carpeta_def)
  have h7: "map_of (sistema ?w) [''Redes'', ''pdf'', ''red.pdf''] = Some (Archivo ''viejo'')"
    by simp
  have h8: "[''red.pdf''] \<notin> set (denegado ?w)"
    by simp
  have h9: "[''Redes'', ''pdf'', ''red.pdf''] \<notin> set (denegado ?w)"
    by simp
  have fin: "(\<exists>w'. paso_organizar ?org ''red.pdf'' (?w, 0, []) = (w', 0 + 1, [])
      \<and> map_of (sistema w') [''Redes'', ''pdf'', ''red.pdf''] = Some (Archivo ''nuevo'')
      \<and> map_of (sistema w') [''red.pdf''] = None
      \<and> (\<forall>q. q \<noteq> [''red.pdf''] \<and> q \<noteq> [''Redes'', ''pdf'', ''red.pdf'']
            \<longrightarrow> map_of (sistema w') q = map_of (sistema ?w) q)
      \<and> salida w' = salida ?w @ [Organizado ''red.pdf'' ''Redes'' ''pdf''])"
    using organizar_sobrescribe [where n = 0 and pendientes = "[]", OF h1 h2 h3 h4 h5 h6 h7 h8 h9] .
  show ?thesis
    unfolding Let_def using h1 h2 h3 h4 h5 h6 h7 h8 h9 fin by (intro conjI)
qed

section \<open>Facts about the flattener\<close>

lemma mientras_existe_libre:
  "\<not> existe fs [mientras_existe fs base ext destino contador]"
proof (induction fs base ext destino contador rule: mientras_existe.induct)
  case (1 fs base ext destino contador)
  show ?case
  proof (cases "existe fs [destino]")
    case True
    then show ?thesis
      using "1.IH" by (subst mientras_existe.simps) simp
  next
    case False
    then show ?thesis
      by (subst mientras_existe.simps) simp
  qed
qed

lemma mientras_existe_primero:
  "existe fs [destino] \<Longrightarrow>
   \<exists>n. contador \<le> n
     \<and> mientras_existe fs base ext destino contador = nombre_numerado base n ext
     \<and> (\<forall>m. contador \<le> m \<and> m < n \<longrightarrow> existe fs [nombre_numerado base m ext])"
proof (induction fs base ext destino contador rule: mientras_existe.induct)
  case (1 fs base ext destino contador)
  have paso: "mientras_existe fs base ext destino contador
      = mientras_existe fs base ext (nombre_numerado base contador ext) (contador + 1)"
    using "1.prems" by (subst mientras_existe.simps) simp
  show ?case
  proof (cases "existe fs [nombre_numerado base contador ext]")
    case True
    from "1.IH" [OF "1.prems" True] obtain n where
      n: "contador + 1 \<le> n"
      and r: "mientras_existe fs base ext (nombre_numerado base contador ext) (contador + 1)
          = nombre_numerado base n ext"
      and o: "\<forall>m. contador + 1 \<le> m \<and> m < n \<longrightarrow> existe fs [nombre_numerado base m ext]"
      by blast
    have "\<forall>m. contador \<le> m \<and> m < n \<longrightarrow> existe fs [nombre_numerado base m ext]"
    proof (intro allI impI)
      fix m
      assume m: "contador \<le> m \<and> m < n"
      show "existe fs [nombre_numerado base m ext]"
      proof (cases "m = contador")
        case True
        then show ?thesis using \<open>existe fs [nombre_numerado base contador ext]\<close> by simp
      next
        case False
        then have "contador + 1 \<le> m" using m by simp
        then show ?thesis using o m by blast
      qed
    qed
    moreover have "contador \<le> n"
      using n by simp
    ultimately show ?thesis
      using paso r by auto
  next
    case False
    have "mientras_existe fs base ext (nombre_numerado base contador ext) (contador + 1)
        = nombre_numerado base contador ext"
      using False by (subst mientras_existe.simps) simp
    then have "mientras_existe fs base ext destino contador = nombre_numerado base contador ext"
      using paso by simp
    moreover have "\<forall>m. contador \<le> m \<and> m < contador
        \<longrightarrow> existe fs [nombre_numerado base m ext]"
      by auto
    ultimately show ?thesis
      by (metis order_refl)
  qed
qed

lemma elegir_destino_libre: "\<not> existe fs [elegir_destino fs x]"
  by (simp add: elegir_destino_def mientras_existe_libre)

lemma elegir_destino_colision:
  assumes "existe fs [x]"
  shows "\<exists>n. 1 \<le> n
     \<and> elegir_destino fs x = nombre_numerado (path_stem x) n (path_suffix x)
     \<and> (\<forall>m. 1 \<le> m \<and> m < n
          \<longrightarrow> existe fs [nombre_numerado (path_stem x) m (path_suffix x)])"
  using mientras_existe_primero [OF assms, of 1 "path_stem x" "path_suffix x"] assms
  by (simp add: elegir_destino_def)

text \<open>A step of the first loop that moves a file: what it returns and what it changes.\<close>

lemma paso_mover_mueve:
  assumes origen: "map_of (sistema w) item = Some (Archivo c)"
    and anidado: "butlast item \<noteq> []"
    and fuera: "\<not> en_carpeta_de_materia org (butlast item)"
    and raiz: "es_carpeta (sistema w) []"
    and libre: "item \<notin> set (denegado w)"
      "[elegir_destino (sistema w) (nombre item)] \<notin> set (denegado w)"
  shows "paso_mover org item (w, k)
     = (imprimir (Movido item (elegir_destino (sistema w) (nombre item)))
          (w\<lparr>sistema := poner [elegir_destino (sistema w) (nombre item)] (Archivo c)
                (quitar item (sistema w))\<rparr>), k + 1)"
proof -
  let ?d = "elegir_destino (sistema w) (nombre item)"
  have "\<not> es_carpeta (sistema w) [?d]"
    using elegir_destino_libre [of "sistema w" "nombre item"]
    by (simp add: es_carpeta_def existe_def)
  then have "shutil_move w item [?d]
      = Inr (w\<lparr>sistema := poner [?d] (Archivo c) (quitar item (sistema w))\<rparr>)"
    using shutil_move_archivo [OF origen _ _ libre] raiz by simp
  moreover have "es_archivo (sistema w) item"
    using origen by (simp add: es_archivo_def)
  ultimately show ?thesis
    using anidado fuera by (simp add: paso_mover_def Let_def)
qed

text \<open>Neither loop of the flattener touches a file that is in the root.\<close>

lemma paso_mover_conserva:
  assumes "map_of (sistema w) [x] = Some (Archivo c)"
  shows "map_of (sistema (fst (paso_mover org item (w, k)))) [x] = Some (Archivo c)"
proof (cases "shutil_move w item [elegir_destino (sistema w) (nombre item)]")
  case (Inl e)
  then show ?thesis
    using assms by (simp add: paso_mover_def Let_def imprimir_def)
next
  case (Inr w1)
  let ?d = "elegir_destino (sistema w) (nombre item)"
  from shutil_move_efecto [OF Inr] obtain c1 rd where
    rd: "rd = [?d] \<or> rd = [?d] @ [nombre item]"
    and w1: "w1 = w\<lparr>sistema := poner rd (Archivo c1) (quitar item (sistema w))\<rparr>"
    by blast
  have "[x] \<noteq> [?d]"
    using elegir_destino_libre [of "sistema w" "nombre item"] assms
    by (auto simp: existe_def)
  then have "[x] \<noteq> rd"
    using rd by auto
  then have "butlast item \<noteq> [] \<Longrightarrow> map_of (sistema w1) [x] = Some (Archivo c)"
    using assms by (auto simp: w1 map_of_poner map_of_quitar)
  then show ?thesis
    using assms Inr by (simp add: paso_mover_def Let_def imprimir_def)
qed

lemma bucle_mover_conserva:
  "map_of (sistema w) [x] = Some (Archivo c) \<Longrightarrow>
   map_of (sistema (fst (fold (paso_mover org) items (w, k)))) [x] = Some (Archivo c)"
proof (induction items arbitrary: w k)
  case Nil
  then show ?case by simp
next
  case (Cons item items)
  obtain w1 k1 where paso: "paso_mover org item (w, k) = (w1, k1)"
    by (cases "paso_mover org item (w, k)") auto
  have "map_of (sistema w1) [x] = Some (Archivo c)"
    using paso_mover_conserva [OF Cons.prems, of org item k] paso by simp
  from Cons.IH [OF this] show ?case
    using paso by simp
qed

lemma paso_eliminar_conserva:
  assumes "map_of (sistema w) q = Some (Archivo c)"
  shows "map_of (sistema (fst (paso_eliminar org carpeta (w, k)))) q = Some (Archivo c)"
proof -
  have "es_carpeta (sistema w) carpeta \<Longrightarrow> q \<noteq> carpeta"
    using assms by (auto simp: es_carpeta_def)
  then show ?thesis
    using assms by (auto simp: paso_eliminar_def imprimir_def map_of_quitar)
qed

lemma bucle_eliminar_conserva:
  "map_of (sistema w) q = Some (Archivo c) \<Longrightarrow>
   map_of (sistema (fst (fold (paso_eliminar org) carpetas (w, k)))) q = Some (Archivo c)"
proof (induction carpetas arbitrary: w k)
  case Nil
  then show ?case by simp
next
  case (Cons carpeta carpetas)
  obtain w1 k1 where paso: "paso_eliminar org carpeta (w, k) = (w1, k1)"
    by (cases "paso_eliminar org carpeta (w, k)") auto
  have "map_of (sistema w1) q = Some (Archivo c)"
    using paso_eliminar_conserva [OF Cons.prems, of org carpeta k] paso by simp
  from Cons.IH [OF this] show ?case
    using paso by simp
qed

lemma resto_conserva:
  "map_of (sistema w) [x] = Some (Archivo c) \<Longrightarrow>
   map_of (sistema (fst (fold (paso_eliminar org) carpetas
      (fst (fold (paso_mover org) items (w, j)), i)))) [x] = Some (Archivo c)"
  by (rule bucle_eliminar_conserva) (rule bucle_mover_conserva)

section \<open>Flattener\<close>

text \<open>
  C4. Collision safety of the flattener. Let \<open>item\<close> be a file in a folder below the root,
  outside the subject folders, and let the root already hold a file of the same name.
  Then the step of the first loop moves \<open>item\<close> to the root under the name
  \<open>stem_n suffix\<close>, where \<open>n\<close> is the first number from 1 on whose name is free (the names
  with the numbers below \<open>n\<close> are all taken), whatever the steps before have done: the
  counter starts at 1 for every file. The file that was in the root keeps its content, the
  moved file has its content under the new name and is gone from where it was, and both
  stay so through all the steps of the two loops that may follow. The system refuses
  neither the source nor the destination.
\<close>

theorem aplanar_colision:
  assumes origen: "map_of (sistema w) item = Some (Archivo c)"
    and anidado: "butlast item \<noteq> []"
    and fuera: "\<not> en_carpeta_de_materia org (butlast item)"
    and ocupado: "map_of (sistema w) [nombre item] = Some (Archivo c0)"
    and raiz: "es_carpeta (sistema w) []"
    and libre: "item \<notin> set (denegado w)"
      "[elegir_destino (sistema w) (nombre item)] \<notin> set (denegado w)"
  shows "\<exists>n w'. 1 \<le> n
     \<and> (\<forall>m. 1 \<le> m \<and> m < n \<longrightarrow>
           existe (sistema w)
             [nombre_numerado (path_stem (nombre item)) m (path_suffix (nombre item))])
     \<and> \<not> existe (sistema w)
           [nombre_numerado (path_stem (nombre item)) n (path_suffix (nombre item))]
     \<and> paso_mover org item (w, k) = (w', k + 1)
     \<and> salida w' = salida w
           @ [Movido item
                (nombre_numerado (path_stem (nombre item)) n (path_suffix (nombre item)))]
     \<and> map_of (sistema w') item = None
     \<and> map_of (sistema w')
           [nombre_numerado (path_stem (nombre item)) n (path_suffix (nombre item))]
         = Some (Archivo c)
     \<and> map_of (sistema w') [nombre item] = Some (Archivo c0)
     \<and> (\<forall>items carpetas j i.
           map_of (sistema (fst (fold (paso_eliminar org) carpetas
               (fst (fold (paso_mover org) items (w', j)), i))))
             [nombre_numerado (path_stem (nombre item)) n (path_suffix (nombre item))]
           = Some (Archivo c)
         \<and> map_of (sistema (fst (fold (paso_eliminar org) carpetas
               (fst (fold (paso_mover org) items (w', j)), i)))) [nombre item]
           = Some (Archivo c0))"
proof -
  let ?fs = "sistema w"
  let ?d = "elegir_destino ?fs (nombre item)"
  have ex: "existe ?fs [nombre item]"
    using ocupado by (simp add: existe_def)
  from elegir_destino_colision [OF ex] obtain n where
    n: "1 \<le> n"
    and d: "?d = nombre_numerado (path_stem (nombre item)) n (path_suffix (nombre item))"
    and menores: "\<forall>m. 1 \<le> m \<and> m < n \<longrightarrow>
           existe ?fs [nombre_numerado (path_stem (nombre item)) m (path_suffix (nombre item))]"
    by blast
  have dlibre: "\<not> existe ?fs [?d]"
    by (rule elegir_destino_libre)
  let ?w = "imprimir (Movido item ?d)
      (w\<lparr>sistema := poner [?d] (Archivo c) (quitar item ?fs)\<rparr>)"
  have paso: "paso_mover org item (w, k) = (?w, k + 1)"
    by (rule paso_mover_mueve [OF origen anidado fuera raiz libre])
  have largo: "\<And>y. item \<noteq> [y]"
    using anidado by auto
  have distintos: "item \<noteq> [?d]" "[nombre item] \<noteq> [?d]" "[nombre item] \<noteq> item"
    using largo [of ?d] largo [of "nombre item"] dlibre ex by auto
  have s: "salida ?w = salida w @ [Movido item ?d]"
    by (simp add: imprimir_def)
  have a: "map_of (sistema ?w) item = None"
    using distintos by (simp add: imprimir_def map_of_poner map_of_quitar)
  have b: "map_of (sistema ?w) [?d] = Some (Archivo c)"
    by (simp add: imprimir_def map_of_poner)
  have e: "map_of (sistema ?w) [nombre item] = Some (Archivo c0)"
    using distintos ocupado by (simp add: imprimir_def map_of_poner map_of_quitar)
  have "\<forall>items carpetas j i.
           map_of (sistema (fst (fold (paso_eliminar org) carpetas
               (fst (fold (paso_mover org) items (?w, j)), i)))) [?d] = Some (Archivo c)
         \<and> map_of (sistema (fst (fold (paso_eliminar org) carpetas
               (fst (fold (paso_mover org) items (?w, j)), i)))) [nombre item]
           = Some (Archivo c0)"
    using resto_conserva [OF b] resto_conserva [OF e] by blast
  then show ?thesis
    using n menores dlibre paso s a b e unfolding d by blast
qed

theorem aplanar_colision_witness:
  "let org = \<lparr>carpeta_origen = ''.'', materias_palabras_clave = [(''Redes'', [''red''])],
        estructura_personalizada = []\<rparr>;
       w = \<lparr>sistema = [([], Carpeta), ([''x.pdf''], Archivo ''original''), ([''sub''], Carpeta),
                 ([''sub'', ''x.pdf''], Archivo ''copia'')],
      denegado = [], salida = []\<rparr>;
       item = [''sub'', ''x.pdf'']
   in map_of (sistema w) item = Some (Archivo ''copia'')
     \<and> butlast item \<noteq> []
     \<and> \<not> en_carpeta_de_materia org (butlast item)
     \<and> map_of (sistema w) [nombre item] = Some (Archivo ''original'')
     \<and> es_carpeta (sistema w) []
     \<and> item \<notin> set (denegado w)
     \<and> [elegir_destino (sistema w) (nombre item)] \<notin> set (denegado w)
     \<and> (\<exists>n w'. 1 \<le> n
       \<and> (\<forall>m. 1 \<le> m \<and> m < n \<longrightarrow>
             existe (sistema w)
               [nombre_numerado (path_stem (nombre item)) m (path_suffix (nombre item))])
       \<and> \<not> existe (sistema w)
             [nombre_numerado (path_stem (nombre item)) n (path_suffix (nombre item))]
       \<and> paso_mover org item (w, 0) = (w', 0 + 1)
       \<and> salida w' = salida w
             @ [Movido item
                  (nombre_numerado (path_stem (nombre item)) n (path_suffix (nombre item)))]
       \<and> map_of (sistema w') item = None
       \<and> map_of (sistema w')
             [nombre_numerado (path_stem (nombre item)) n (path_suffix (nombre item))]
           = Some (Archivo ''copia'')
       \<and> map_of (sistema w') [nombre item] = Some (Archivo ''original'')
       \<and> (\<forall>items carpetas j i.
             map_of (sistema (fst (fold (paso_eliminar org) carpetas
                 (fst (fold (paso_mover org) items (w', j)), i))))
               [nombre_numerado (path_stem (nombre item)) n (path_suffix (nombre item))]
             = Some (Archivo ''copia'')
           \<and> map_of (sistema (fst (fold (paso_eliminar org) carpetas
                 (fst (fold (paso_mover org) items (w', j)), i)))) [nombre item]
             = Some (Archivo ''original'')))
     \<and> sistema (mover_archivos_de_subcarpetas org w)
         = [([], Carpeta), ([''x.pdf''], Archivo ''original''),
            ([''x_1.pdf''], Archivo ''copia'')]"
proof -
  let ?org = "\<lparr>carpeta_origen = ''.'', materias_palabras_clave = [(''Redes'', [''red''])],
        estructura_personalizada = []\<rparr>"
  let ?w = "\<lparr>sistema = [([], Carpeta), ([''x.pdf''], Archivo ''original''), ([''sub''], Carpeta),
                 ([''sub'', ''x.pdf''], Archivo ''copia'')],
      denegado = [], salida = []\<rparr>"
  let ?item = "[''sub'', ''x.pdf'']"
  have h1: "map_of (sistema ?w) ?item = Some (Archivo ''copia'')"
    by simp
  have h2: "butlast ?item \<noteq> []"
    by simp
  have h3: "\<not> en_carpeta_de_materia ?org (butlast ?item)"
    by (simp add: en_carpeta_de_materia_def str_ruta_def)
  have h4: "map_of (sistema ?w) [nombre ?item] = Some (Archivo ''original'')"
    by (simp add: nombre_def)
  have h5: "es_carpeta (sistema ?w) []"
    by (simp add: es_carpeta_def)
  have h6: "?item \<notin> set (denegado ?w)"
    by simp
  have h7: "[elegir_destino (sistema ?w) (nombre ?item)] \<notin> set (denegado ?w)"
    by simp
  note fin = aplanar_colision [where k = 0, OF h1 h2 h3 h4 h5 h6 h7]
  have todo: "sistema (mover_archivos_de_subcarpetas ?org ?w)
         = [([], Carpeta), ([''x.pdf''], Archivo ''original''),
            ([''x_1.pdf''], Archivo ''copia'')]"
    by code_simp
  show ?thesis
    unfolding Let_def using h1 h2 h3 h4 h5 h6 h7 fin todo by (intro conjI)
qed

section \<open>Facts about the root and about what is printed\<close>























section \<open>Errors that end the run\<close>




section \<open>What a run reports\<close>




end
